theory Spec2Isabelle
  imports Main "HOL-Library.Sublist"
begin

section \<open>Python values and exceptions\<close>

text \<open>
  The module \<open>core/rsa_handler.py\<close> is a layer of wrappers around the \<open>cryptography\<close>
  package. The embedding follows the validators, the conversions and the class
  \<open>RSAUtil\<close> line by line; what they call (the package, and the codecs \<open>str.encode\<close>
  and \<open>bytes.decode\<close> of the Python runtime) is a parameter \<open>E\<close> of every function, of
  the record type \<open>env\<close> below. A call either returns a value (\<open>Inr\<close>) or raises an
  exception (\<open>Inl\<close>). The messages of the exceptions the module raises are in Chinese
  in the source and are given here in English.

  A \<open>bytes\<close> object is a list of 8-bit characters, so that the literal
  \<open>b"BEGIN PRIVATE KEY"\<close> is \<open>''BEGIN PRIVATE KEY''\<close>. A \<open>str\<close> that carries key data is
  a list of Unicode code points. The option names (\<open>padding_mode\<close>, \<open>hash_alg\<close>,
  \<open>encoding\<close>, \<open>format\<close>) are strings over the code points below 256.
\<close>

type_synonym bytes = string
type_synonym str = "nat list"

datatype pyval = PyStr str | PyBytes bytes

text \<open>
  The exception classes the module names in its handlers, the ones it raises, and two
  representatives: \<open>Exception\<close> for any other subclass of \<open>Exception\<close>, and
  \<open>KeyboardInterrupt\<close> for a \<open>BaseException\<close> that is not an \<open>Exception\<close>.
  \<open>issubclass\<close> is Python's class hierarchy on them: the Unicode errors are
  \<open>ValueError\<close>s, everything but \<open>KeyboardInterrupt\<close> is an \<open>Exception\<close>.
\<close>

datatype exc_class =
    KeyboardInterrupt
  | Exception
  | ValueError
  | UnicodeEncodeError
  | UnicodeDecodeError
  | TypeError
  | AttributeError
  | InvalidSignature
  | UnsupportedAlgorithm

datatype exn = Exn (exn_class: exc_class) (exn_msg: string) (exn_cause: "exn option")

fun issubclass :: "exc_class \<Rightarrow> exc_class \<Rightarrow> bool" where
  "issubclass c Exception = (c \<noteq> KeyboardInterrupt)"
| "issubclass c ValueError = (c = ValueError \<or> c = UnicodeEncodeError \<or> c = UnicodeDecodeError)"
| "issubclass c d = (c = d)"

definition caught_by :: "exn \<Rightarrow> exc_class \<Rightarrow> bool" where
  \<comment> \<open>whether \<open>except d:\<close> handles the exception\<close>
  "caught_by e d = issubclass (exn_class e) d"

definition none_has_no_attribute :: "string \<Rightarrow> exn" where
  \<comment> \<open>what Python raises on \<open>None.name\<close>\<close>
  "none_has_no_attribute name =
     Exn AttributeError
       ([CHR 0x27] @ ''NoneType'' @ [CHR 0x27] @ '' object has no attribute '' @
        [CHR 0x27] @ name @ [CHR 0x27]) None"

text \<open>
  \<open>str.upper\<close> on the option names: the ASCII letters, the sharp s (which becomes
  \<open>SS\<close>) and the accented Latin-1 letters. The micro sign and y with diaeresis, whose
  upper-case forms lie beyond code point 255, stay as they are: like their upper-case
  forms they differ from every character of the names the module compares with.
\<close>

definition upper_char :: "char \<Rightarrow> string" where
  "upper_char c =
     (let n = (of_char c :: nat) in
      if 97 \<le> n \<and> n \<le> 122 then [char_of (n - 32)]
      else if n = 223 then ''SS''
      else if 224 \<le> n \<and> n \<le> 254 \<and> n \<noteq> 247 then [char_of (n - 32)]
      else [c])"

definition upper :: "string \<Rightarrow> string" where
  "upper s = concat (map upper_char s)"

text \<open>\<open>needle in haystack\<close> on bytes: the needle occurs as a contiguous run.\<close>

fun bytes_in :: "bytes \<Rightarrow> bytes \<Rightarrow> bool" where
  "bytes_in xs [] = (xs = [])"
| "bytes_in xs (y # ys) = (prefix xs (y # ys) \<or> bytes_in xs ys)"


section \<open>The interface of the cryptography package\<close>

text \<open>
  The enumerations and parameter objects of \<open>serialization\<close> and \<open>padding\<close> that the
  module builds, and the operations it calls. Keys and hash objects are opaque:
  \<open>'priv\<close>, \<open>'pub\<close> and \<open>'hash\<close>. \<open>generate_private_key\<close> and \<open>key_sign\<close> draw random
  bits; the bits drawn by a call are its \<open>seed\<close> argument.
\<close>

datatype encoding = PEM | DER
datatype private_format = TraditionalOpenSSL | PKCS8
datatype public_format = SubjectPublicKeyInfo | PKCS1
datatype encryption = NoEncryption | BestAvailableEncryption bytes
datatype 'hash mgf = MGF1 'hash
datatype salt_length = MAX_LENGTH
datatype 'hash padding = PSS "'hash mgf" salt_length | PKCS1v15

type_synonym seed = nat

record ('priv, 'pub, 'hash) env =
  str_encode :: "str \<Rightarrow> exn + bytes"
  bytes_decode :: "bytes \<Rightarrow> exn + str"
  load_pem_private_key :: "bytes \<Rightarrow> bytes option \<Rightarrow> exn + 'priv"
  load_der_private_key :: "bytes \<Rightarrow> bytes option \<Rightarrow> exn + 'priv"
  load_pem_public_key :: "bytes \<Rightarrow> exn + 'pub"
  load_der_public_key :: "bytes \<Rightarrow> exn + 'pub"
  isinstance_RSAPrivateKey :: "'priv \<Rightarrow> bool"
  isinstance_RSAPublicKey :: "'pub \<Rightarrow> bool"
  private_bytes :: "'priv \<Rightarrow> encoding \<Rightarrow> private_format \<Rightarrow> encryption \<Rightarrow> exn + bytes"
  public_bytes :: "'pub \<Rightarrow> encoding \<Rightarrow> public_format \<Rightarrow> exn + bytes"
  public_key_of :: "'priv \<Rightarrow> 'pub"
  public_numbers :: "'pub \<Rightarrow> int \<times> int"
  generate_private_key :: "seed \<Rightarrow> int \<Rightarrow> int \<Rightarrow> exn + 'priv"
  hashes_getattr :: "string \<Rightarrow> exn + 'hash"
  key_sign :: "seed \<Rightarrow> 'priv \<Rightarrow> bytes \<Rightarrow> 'hash padding \<Rightarrow> 'hash \<Rightarrow> exn + bytes"
  key_verify :: "'pub \<Rightarrow> bytes \<Rightarrow> bytes \<Rightarrow> 'hash padding \<Rightarrow> 'hash \<Rightarrow> exn + unit"

text \<open>
  \<open>public_key_of k\<close> is \<open>k.public_key()\<close>; \<open>public_numbers p\<close> is the pair (modulus,
  public exponent) of \<open>p.public_numbers()\<close>; \<open>hashes_getattr name\<close> is
  \<open>getattr(hashes, name)()\<close>; \<open>generate_private_key seed public_exponent key_size\<close> is
  \<open>rsa.generate_private_key\<close>; \<open>key_sign\<close> and \<open>key_verify\<close> are the methods \<open>sign\<close> of a
  private key and \<open>verify\<close> of a public key, with their arguments in the source's order.
\<close>


section \<open>Validation\<close>

definition encode_if_str :: "('priv, 'pub, 'hash) env \<Rightarrow> pyval \<Rightarrow> exn + bytes" where
  \<comment> \<open>\<open>if isinstance(data, str): data = data.encode()\<close>\<close>
  "encode_if_str E data = (case data of PyStr s \<Rightarrow> str_encode E s | PyBytes b \<Rightarrow> Inr b)"

definition is_valid_rsa_private_key :: "('priv, 'pub, 'hash) env \<Rightarrow> pyval \<Rightarrow> exn + bool" where
  "is_valid_rsa_private_key E data =
     (case encode_if_str E data of
        Inl e \<Rightarrow> Inl e
      | Inr d \<Rightarrow>
          (case load_pem_private_key E d None of
             Inr key \<Rightarrow> Inr (isinstance_RSAPrivateKey E key)
           | Inl e \<Rightarrow>
               if caught_by e ValueError then
                 (case load_der_private_key E d None of
                    Inr key \<Rightarrow> Inr (isinstance_RSAPrivateKey E key)
                  | Inl e' \<Rightarrow> if caught_by e' Exception then Inr False else Inl e')
               else Inl e))"

definition is_valid_rsa_public_key :: "('priv, 'pub, 'hash) env \<Rightarrow> pyval \<Rightarrow> exn + bool" where
  "is_valid_rsa_public_key E data =
     (case encode_if_str E data of
        Inl e \<Rightarrow> Inl e
      | Inr d \<Rightarrow>
          (case load_pem_public_key E d of
             Inr key \<Rightarrow> Inr (isinstance_RSAPublicKey E key)
           | Inl e \<Rightarrow>
               if caught_by e ValueError then
                 (case load_der_public_key E d of
                    Inr key \<Rightarrow> Inr (isinstance_RSAPublicKey E key)
                  | Inl e' \<Rightarrow> if caught_by e' Exception then Inr False else Inl e')
               else Inl e))"


section \<open>Format conversion\<close>

definition pkcs1_to_pkcs8 :: "('priv, 'pub, 'hash) env \<Rightarrow> bytes \<Rightarrow> exn + bytes" where
  "pkcs1_to_pkcs8 E pkcs1_pem =
     (case load_pem_private_key E pkcs1_pem None of
        Inl e \<Rightarrow> Inl e
      | Inr private_key \<Rightarrow> private_bytes E private_key PEM PKCS8 NoEncryption)"

definition pkcs8_to_pkcs1 :: "('priv, 'pub, 'hash) env \<Rightarrow> bytes \<Rightarrow> exn + bytes" where
  "pkcs8_to_pkcs1 E pkcs8_pem =
     (case load_pem_private_key E pkcs8_pem None of
        Inl e \<Rightarrow> Inl e
      | Inr private_key \<Rightarrow> private_bytes E private_key PEM TraditionalOpenSSL NoEncryption)"

definition pkcs1_pub_to_spki :: "('priv, 'pub, 'hash) env \<Rightarrow> bytes \<Rightarrow> exn + bytes" where
  "pkcs1_pub_to_spki E pkcs1_pem =
     (case load_pem_public_key E pkcs1_pem of
        Inl e \<Rightarrow> Inl e
      | Inr public_key \<Rightarrow> public_bytes E public_key PEM SubjectPublicKeyInfo)"

definition not_rsa_public_key :: exn where
  \<comment> \<open>the \<open>TypeError\<close> of \<open>spki_to_pkcs1_pub\<close>; its message, in Chinese in the source, says this\<close>
  "not_rsa_public_key = Exn TypeError ''only RSA public keys can be converted'' None"

definition spki_to_pkcs1_pub :: "('priv, 'pub, 'hash) env \<Rightarrow> bytes \<Rightarrow> exn + bytes" where
  "spki_to_pkcs1_pub E spki_pem =
     (case load_pem_public_key E spki_pem of
        Inl e \<Rightarrow> Inl e
      | Inr public_key \<Rightarrow>
          if \<not> isinstance_RSAPublicKey E public_key then Inl not_rsa_public_key
          else public_bytes E public_key PEM PKCS1)"

definition decode_utf8 :: "('priv, 'pub, 'hash) env \<Rightarrow> exn + bytes \<Rightarrow> exn + pyval" where
  \<comment> \<open>\<open>.decode("utf-8")\<close> applied to the result of a call\<close>
  "decode_utf8 E r =
     (case r of
        Inl e \<Rightarrow> Inl e
      | Inr b \<Rightarrow> (case bytes_decode E b of Inl e \<Rightarrow> Inl e | Inr s \<Rightarrow> Inr (PyStr s)))"

definition unrecognized_private_format :: exn where
  \<comment> \<open>message in Chinese in the source: unrecognised private key format, header missing\<close>
  "unrecognized_private_format =
     Exn ValueError ''err, unrecognized private key format, header marker missing'' None"

definition unrecognized_public_format :: exn where
  \<comment> \<open>message in Chinese in the source: unrecognised public key format, header missing\<close>
  "unrecognized_public_format =
     Exn ValueError ''unrecognized public key format, header marker missing'' None"

definition convert_private_key_auto :: "('priv, 'pub, 'hash) env \<Rightarrow> bytes \<Rightarrow> exn + pyval" where
  "convert_private_key_auto E pem_data =
     (if bytes_in ''BEGIN RSA PRIVATE KEY'' pem_data then
        decode_utf8 E (pkcs1_to_pkcs8 E pem_data)
      else if bytes_in ''BEGIN PRIVATE KEY'' pem_data then
        decode_utf8 E (pkcs8_to_pkcs1 E pem_data)
      else Inl unrecognized_private_format)"

text \<open>
  The public variant prints a line before it converts; the printed lines are the first
  component of its result. It returns the bytes of the conversion as they are.
\<close>

definition as_bytes :: "exn + bytes \<Rightarrow> exn + pyval" where
  "as_bytes r = (case r of Inl e \<Rightarrow> Inl e | Inr b \<Rightarrow> Inr (PyBytes b))"

definition convert_public_key_auto ::
  "('priv, 'pub, 'hash) env \<Rightarrow> bytes \<Rightarrow> string list \<times> (exn + pyval)" where
  "convert_public_key_auto E pem_data =
     (if bytes_in ''BEGIN RSA PUBLIC KEY'' pem_data then
        ([''Detected PKCS#1 public key, converting to SPKI''],
         as_bytes (pkcs1_pub_to_spki E pem_data))
      else if bytes_in ''BEGIN PUBLIC KEY'' pem_data then
        ([''Detected SPKI public key, converting to PKCS#1''],
         as_bytes (spki_to_pkcs1_pub E pem_data))
      else ([], Inl unrecognized_public_format))"


section \<open>The signing engine\<close>

text \<open>
  An instance of \<open>RSAUtil\<close> has two attributes, each a key object or \<open>None\<close>. The
  constructor takes a key object or \<open>None\<close> for \<open>private_key\<close> and for \<open>public_key\<close>; a
  key object is true in a condition.
\<close>

record ('priv, 'pub) RSAUtil =
  private_key :: "'priv option"
  public_key :: "'pub option"

definition RSAUtil_init ::
  "('priv, 'pub, 'hash) env \<Rightarrow> seed \<Rightarrow> 'priv option \<Rightarrow> 'pub option \<Rightarrow> int \<Rightarrow> int
     \<Rightarrow> exn + ('priv, 'pub) RSAUtil" where
  "RSAUtil_init E sd priv pub key_size public_exponent =
     (case priv of
        Some k \<Rightarrow> Inr \<lparr>private_key = Some k, public_key = Some (public_key_of E k)\<rparr>
      | None \<Rightarrow>
          (case pub of
             Some p \<Rightarrow> Inr \<lparr>private_key = None, public_key = Some p\<rparr>
           | None \<Rightarrow>
               (case generate_private_key E sd public_exponent key_size of
                  Inl e \<Rightarrow> Inl e
                | Inr k \<Rightarrow>
                    Inr \<lparr>private_key = Some k, public_key = Some (public_key_of E k)\<rparr>)))"

definition neither_private_nor_public :: "exn \<Rightarrow> exn" where
  \<comment> \<open>\<open>raise ValueError(...) from e\<close>; the message, in Chinese in the source, says this\<close>
  "neither_private_nor_public e =
     Exn ValueError
       ''cannot load PEM key: neither a valid private key nor a valid public key'' (Some e)"

definition from_pem ::
  "('priv, 'pub, 'hash) env \<Rightarrow> seed \<Rightarrow> bytes \<Rightarrow> bytes option \<Rightarrow> exn + ('priv, 'pub) RSAUtil" where
  "from_pem E sd pem_bytes password =
     (case (case load_pem_private_key E pem_bytes password of
              Inl e \<Rightarrow> Inl e
            | Inr k \<Rightarrow> RSAUtil_init E sd (Some k) None 2048 65537) of
        Inr eng \<Rightarrow> Inr eng
      | Inl e \<Rightarrow>
          if caught_by e ValueError then
            (case (case load_pem_public_key E pem_bytes of
                     Inl e' \<Rightarrow> Inl e'
                   | Inr p \<Rightarrow> RSAUtil_init E sd None (Some p) 2048 65537) of
               Inr eng \<Rightarrow> Inr eng
             | Inl e' \<Rightarrow>
                 if caught_by e' Exception then Inl (neither_private_nor_public e')
                 else Inl e')
          else Inl e)"

definition export_private_key ::
  "('priv, 'pub, 'hash) env \<Rightarrow> ('priv, 'pub) RSAUtil \<Rightarrow> string \<Rightarrow> string \<Rightarrow> bytes option
     \<Rightarrow> exn + bytes" where
  "export_private_key E self encoding format password =
     (let enc = (if upper encoding = ''PEM'' then PEM else DER);
          fmt = (if upper format = ''PKCS1'' then TraditionalOpenSSL else PKCS8);
          encryption_alg =
            (case password of
               None \<Rightarrow> NoEncryption
             | Some pw \<Rightarrow> if pw = [] then NoEncryption else BestAvailableEncryption pw)
      in case private_key self of
           None \<Rightarrow> Inl (none_has_no_attribute ''private_bytes'')
         | Some k \<Rightarrow> private_bytes E k enc fmt encryption_alg)"

definition export_public_key ::
  "('priv, 'pub, 'hash) env \<Rightarrow> ('priv, 'pub) RSAUtil \<Rightarrow> string \<Rightarrow> exn + bytes" where
  "export_public_key E self encoding =
     (let enc = (if upper encoding = ''PEM'' then PEM else DER)
      in case public_key self of
           None \<Rightarrow> Inl (none_has_no_attribute ''public_bytes'')
         | Some p \<Rightarrow> public_bytes E p enc SubjectPublicKeyInfo)"

text \<open>
  \<open>sign\<close> and \<open>verify\<close> begin with the same lines: the hash object is looked up by the
  upper-cased name, then the padding object is built from the upper-cased mode.
  \<open>select_padding\<close> is the second of these steps.
\<close>

definition select_padding :: "string \<Rightarrow> 'hash \<Rightarrow> exn + 'hash padding" where
  "select_padding padding_mode hash_algo =
     (if upper padding_mode = ''PSS'' then Inr (PSS (MGF1 hash_algo) MAX_LENGTH)
      else if upper padding_mode = ''PKCS1V15'' then Inr PKCS1v15
      else Inl (Exn ValueError (''Unsupported padding_mode: '' @ padding_mode) None))"

definition sign ::
  "('priv, 'pub, 'hash) env \<Rightarrow> seed \<Rightarrow> ('priv, 'pub) RSAUtil \<Rightarrow> bytes \<Rightarrow> string \<Rightarrow> string
     \<Rightarrow> exn + bytes" where
  "sign E sd self message padding_mode hash_alg =
     (case hashes_getattr E (upper hash_alg) of
        Inl e \<Rightarrow> Inl e
      | Inr hash_algo \<Rightarrow>
          (case select_padding padding_mode hash_algo of
             Inl e \<Rightarrow> Inl e
           | Inr pad \<Rightarrow>
               (case private_key self of
                  None \<Rightarrow> Inl (none_has_no_attribute ''sign'')
                | Some k \<Rightarrow> key_sign E sd k message pad hash_algo)))"

definition verify ::
  "('priv, 'pub, 'hash) env \<Rightarrow> ('priv, 'pub) RSAUtil \<Rightarrow> bytes \<Rightarrow> bytes \<Rightarrow> string \<Rightarrow> string
     \<Rightarrow> exn + bool" where
  "verify E self message signature padding_mode hash_alg =
     (case hashes_getattr E (upper hash_alg) of
        Inl e \<Rightarrow> Inl e
      | Inr hash_algo \<Rightarrow>
          (case select_padding padding_mode hash_algo of
             Inl e \<Rightarrow> Inl e
           | Inr pad \<Rightarrow>
               (case (case public_key self of
                        None \<Rightarrow> Inl (none_has_no_attribute ''verify'')
                      | Some p \<Rightarrow> key_verify E p signature message pad hash_algo) of
                  Inr u \<Rightarrow> Inr True
                | Inl e \<Rightarrow> if caught_by e InvalidSignature then Inr False else Inl e)))"


section \<open>What the statements below ask of the package\<close>

text \<open>
  Two properties of the package enter the statements about round trips as assumptions:
  that a signature returned by \<open>sign\<close> of a private key is accepted by \<open>verify\<close> of its
  public key under the same padding and hash, and that an RSA key serialised unencrypted
  in PEM parses back to an RSA key with the same modulus and public exponent.
\<close>

definition sign_verify_contract :: "('priv, 'pub, 'hash) env \<Rightarrow> bool" where
  "sign_verify_contract E =
     (\<forall>sd k m pad h s.
        key_sign E sd k m pad h = Inr s \<longrightarrow>
        key_verify E (public_key_of E k) s m pad h = Inr ())"

definition private_codec_contract :: "('priv, 'pub, 'hash) env \<Rightarrow> bool" where
  "private_codec_contract E =
     (\<forall>k fmt.
        isinstance_RSAPrivateKey E k \<longrightarrow>
        (\<exists>b k'. private_bytes E k PEM fmt NoEncryption = Inr b \<and>
                load_pem_private_key E b None = Inr k' \<and>
                isinstance_RSAPrivateKey E k' \<and>
                public_numbers E (public_key_of E k') = public_numbers E (public_key_of E k)))"

definition public_codec_contract :: "('priv, 'pub, 'hash) env \<Rightarrow> bool" where
  "public_codec_contract E =
     (\<forall>p fmt.
        isinstance_RSAPublicKey E p \<longrightarrow>
        (\<exists>b p'. public_bytes E p PEM fmt = Inr b \<and>
                load_pem_public_key E b = Inr p' \<and>
                isinstance_RSAPublicKey E p' \<and>
                public_numbers E p' = public_numbers E p))"

definition supported_scheme :: "('priv, 'pub, 'hash) env \<Rightarrow> string \<Rightarrow> string \<Rightarrow> bool" where
  \<comment> \<open>the hash name resolves and the padding mode is one of the two the engine knows\<close>
  "supported_scheme E padding_mode hash_alg =
     ((\<exists>h. hashes_getattr E (upper hash_alg) = Inr h) \<and>
      (upper padding_mode = ''PSS'' \<or> upper padding_mode = ''PKCS1V15''))"


section \<open>A small environment\<close>

text \<open>
  An instance of \<open>env\<close> on which the statements are evaluated. It has three key pairs
  (two RSA pairs, of 256 and of 64 bytes, and one elliptic-curve pair) and two hashes.
  Keys are tokens, and the pair of numbers of a key stands in for its modulus and
  exponent. The environment follows the package's behaviour in the small: a private key
  is loaded from the first PEM block that has the label of a private key, a public key
  from the first PEM block of the data, and a DER blob is the whole of the data; an
  encrypted private key loaded without a password raises \<open>TypeError\<close>; PSS with a
  digest too large for the key raises \<open>ValueError\<close>; a signature that does not match
  raises \<open>InvalidSignature\<close>. A signature is the name of the key, padding and hash
  followed by the message; a PSS signature starts with a salt byte, which verification
  skips.
\<close>

datatype demo_key = RsaLarge | RsaSmall | Ec
datatype demo_priv = DemoPriv demo_key
datatype demo_pub = DemoPub demo_key
datatype demo_hash = DemoSHA256 | DemoSHA512

definition pem_block :: "string \<Rightarrow> string \<Rightarrow> bytes" where
  "pem_block label body =
     ''-----BEGIN '' @ label @ ''-----'' @ body @ ''-----END '' @ label @ ''-----''"

definition der_blob :: "string \<Rightarrow> string \<Rightarrow> bytes" where
  "der_blob label body = [CHR 0x30, CHR 0x82] @ label @ ''/'' @ body"

fun key_name :: "demo_key \<Rightarrow> string" where
  "key_name RsaLarge = ''rsa-large''"
| "key_name RsaSmall = ''rsa-small''"
| "key_name Ec = ''ec''"

fun key_bytes :: "demo_key \<Rightarrow> nat" where
  "key_bytes RsaLarge = 256"
| "key_bytes RsaSmall = 64"
| "key_bytes Ec = 32"

fun demo_numbers :: "demo_key \<Rightarrow> int \<times> int" where
  "demo_numbers RsaLarge = (3233, 65537)"
| "demo_numbers RsaSmall = (3127, 65537)"
| "demo_numbers Ec = (0, 0)"

fun digest_size :: "demo_hash \<Rightarrow> nat" where
  "digest_size DemoSHA256 = 32"
| "digest_size DemoSHA512 = 64"

fun hash_name :: "demo_hash \<Rightarrow> string" where
  "hash_name DemoSHA256 = ''sha256''"
| "hash_name DemoSHA512 = ''sha512''"

definition demo_keys :: "demo_key list" where
  "demo_keys = [RsaLarge, RsaSmall, Ec]"

definition private_label :: "demo_key \<Rightarrow> private_format \<Rightarrow> encryption \<Rightarrow> string" where
  "private_label k fmt encr =
     (case encr of
        BestAvailableEncryption pw \<Rightarrow> ''ENCRYPTED PRIVATE KEY''
      | NoEncryption \<Rightarrow>
          (case fmt of
             PKCS8 \<Rightarrow> ''PRIVATE KEY''
           | TraditionalOpenSSL \<Rightarrow> if k = Ec then ''EC PRIVATE KEY'' else ''RSA PRIVATE KEY''))"

definition private_body :: "demo_key \<Rightarrow> encryption \<Rightarrow> string" where
  "private_body k encr =
     (case encr of NoEncryption \<Rightarrow> key_name k | BestAvailableEncryption pw \<Rightarrow> key_name k @ ''/'' @ pw)"

definition demo_private_bytes ::
  "demo_priv \<Rightarrow> encoding \<Rightarrow> private_format \<Rightarrow> encryption \<Rightarrow> exn + bytes" where
  "demo_private_bytes sk enc fmt encr =
     (case sk of DemoPriv k \<Rightarrow>
        (case enc of
           PEM \<Rightarrow> Inr (pem_block (private_label k fmt encr) (private_body k encr))
         | DER \<Rightarrow> Inr (der_blob (private_label k fmt encr) (private_body k encr))))"

definition demo_public_bytes :: "demo_pub \<Rightarrow> encoding \<Rightarrow> public_format \<Rightarrow> exn + bytes" where
  "demo_public_bytes pk enc fmt =
     (case pk of DemoPub k \<Rightarrow>
        if fmt = PKCS1 \<and> k = Ec then
          Inl (Exn ValueError ''EC public keys do not support PKCS1 serialization'' None)
        else
          (let label = (if fmt = PKCS1 then ''RSA PUBLIC KEY'' else ''PUBLIC KEY'')
           in case enc of
                PEM \<Rightarrow> Inr (pem_block label (key_name k))
              | DER \<Rightarrow> Inr (der_blob label (key_name k))))"

definition could_not_deserialize :: exn where
  "could_not_deserialize = Exn ValueError ''Could not deserialize key data.'' None"

fun tails :: "bytes \<Rightarrow> bytes list" where
  "tails [] = [[]]"
| "tails (x # xs) = (x # xs) # tails xs"

definition containers :: "encoding \<Rightarrow> bytes \<Rightarrow> bytes list" where
  \<comment> \<open>PEM: the data from each \<open>BEGIN\<close> line on, in order; DER: the data\<close>
  "containers enc d =
     (case enc of PEM \<Rightarrow> filter (prefix ''-----BEGIN '') (tails d) | DER \<Rightarrow> [d])"

definition has_label :: "encoding \<Rightarrow> string \<Rightarrow> bytes \<Rightarrow> bool" where
  "has_label enc label c =
     (case enc of
        PEM \<Rightarrow> prefix (''-----BEGIN '' @ label @ ''-----'') c
      | DER \<Rightarrow> prefix ([CHR 0x30, CHR 0x82] @ label @ ''/'') c)"

definition holds :: "encoding \<Rightarrow> string \<Rightarrow> string \<Rightarrow> bytes \<Rightarrow> bool" where
  "holds enc label body c =
     (case enc of PEM \<Rightarrow> prefix (pem_block label body) c | DER \<Rightarrow> c = der_blob label body)"

definition private_labels :: "string list" where
  "private_labels =
     [''PRIVATE KEY'', ''RSA PRIVATE KEY'', ''EC PRIVATE KEY'', ''ENCRYPTED PRIVATE KEY'']"

definition demo_load_private :: "encoding \<Rightarrow> bytes \<Rightarrow> bytes option \<Rightarrow> exn + demo_priv" where
  \<comment> \<open>the first container with the label of a private key is the one that is read\<close>
  "demo_load_private enc d password =
     (case find (\<lambda>c. list_ex (\<lambda>label. has_label enc label c) private_labels) (containers enc d) of
        None \<Rightarrow> Inl could_not_deserialize
      | Some c \<Rightarrow>
          if has_label enc ''ENCRYPTED PRIVATE KEY'' c then
            (case password of
               None \<Rightarrow>
                 Inl (Exn TypeError ''Password was not given but private key is encrypted'' None)
             | Some pw \<Rightarrow>
                 (case find (\<lambda>k. holds enc ''ENCRYPTED PRIVATE KEY'' (key_name k @ ''/'' @ pw) c)
                         demo_keys of
                    Some k \<Rightarrow> Inr (DemoPriv k)
                  | None \<Rightarrow> Inl (Exn ValueError ''Bad decrypt. Incorrect password?'' None)))
          else
            (case find (\<lambda>k. holds enc (private_label k TraditionalOpenSSL NoEncryption) (key_name k) c
                             \<or> holds enc ''PRIVATE KEY'' (key_name k) c)
                    demo_keys of
               None \<Rightarrow> Inl could_not_deserialize
             | Some k \<Rightarrow>
                 (case password of
                    None \<Rightarrow> Inr (DemoPriv k)
                  | Some pw \<Rightarrow>
                      Inl (Exn TypeError ''Password was given but private key is not encrypted.''
                             None))))"

definition demo_load_public :: "encoding \<Rightarrow> bytes \<Rightarrow> exn + demo_pub" where
  \<comment> \<open>the first container is the one that is read, whatever its label\<close>
  "demo_load_public enc d =
     (case containers enc d of
        [] \<Rightarrow> Inl could_not_deserialize
      | c # cs \<Rightarrow>
          (case find (\<lambda>k. holds enc ''PUBLIC KEY'' (key_name k) c
                           \<or> (k \<noteq> Ec \<and> holds enc ''RSA PUBLIC KEY'' (key_name k) c))
                  demo_keys of
             None \<Rightarrow> Inl could_not_deserialize
           | Some k \<Rightarrow> Inr (DemoPub k)))"

definition demo_hashes_getattr :: "string \<Rightarrow> exn + demo_hash" where
  "demo_hashes_getattr name =
     (if name = ''SHA256'' then Inr DemoSHA256
      else if name = ''SHA512'' then Inr DemoSHA512
      else if name = ''SHAKE128'' then
        Inl (Exn TypeError ''__init__() missing 1 required positional argument: digest_size'' None)
      else Inl (Exn AttributeError (''module has no attribute '' @ name) None))"

definition demo_generate :: "seed \<Rightarrow> int \<Rightarrow> int \<Rightarrow> exn + demo_priv" where
  "demo_generate sd public_exponent key_size =
     (if public_exponent \<noteq> 65537 then
        Inl (Exn ValueError ''public_exponent must be 65537 in this environment'' None)
      else if key_size = 2048 then Inr (DemoPriv RsaLarge)
      else if key_size = 512 then Inr (DemoPriv RsaSmall)
      else Inl (Exn ValueError ''key_size must be 512 or 2048 in this environment'' None))"

definition signed_content :: "demo_key \<Rightarrow> demo_hash padding \<Rightarrow> demo_hash \<Rightarrow> bytes \<Rightarrow> bytes" where
  "signed_content k pad h m =
     key_name k @ (case pad of PSS g sl \<Rightarrow> ''|pss|'' | PKCS1v15 \<Rightarrow> ''|pkcs1v15|'') @ hash_name h
       @ ''|'' @ m"

definition padding_fits :: "demo_key \<Rightarrow> demo_hash padding \<Rightarrow> demo_hash \<Rightarrow> bool" where
  "padding_fits k pad h =
     (case pad of
        PSS g sl \<Rightarrow> digest_size h + 2 \<le> key_bytes k
      | PKCS1v15 \<Rightarrow> digest_size h + 19 + 11 \<le> key_bytes k)"

definition digest_too_large :: exn where
  "digest_too_large =
     Exn ValueError ''Digest too large for key size. Use a larger key or different digest.'' None"

definition not_an_rsa_key :: exn where
  "not_an_rsa_key = Exn TypeError ''padding and hash given to a key that is not RSA'' None"

definition demo_sign ::
  "seed \<Rightarrow> demo_priv \<Rightarrow> bytes \<Rightarrow> demo_hash padding \<Rightarrow> demo_hash \<Rightarrow> exn + bytes" where
  "demo_sign sd sk m pad h =
     (case sk of DemoPriv k \<Rightarrow>
        if k = Ec then Inl not_an_rsa_key
        else if \<not> padding_fits k pad h then Inl digest_too_large
        else
          (case pad of
             PSS g sl \<Rightarrow> Inr (char_of sd # signed_content k pad h m)
           | PKCS1v15 \<Rightarrow> Inr (signed_content k pad h m)))"

definition demo_verify ::
  "demo_pub \<Rightarrow> bytes \<Rightarrow> bytes \<Rightarrow> demo_hash padding \<Rightarrow> demo_hash \<Rightarrow> exn + unit" where
  "demo_verify pk s m pad h =
     (case pk of DemoPub k \<Rightarrow>
        if k = Ec then Inl not_an_rsa_key
        else
          (case pad of
             PSS g sl \<Rightarrow>
               if \<not> padding_fits k pad h then Inl digest_too_large
               else if s \<noteq> [] \<and> tl s = signed_content k pad h m then Inr ()
               else Inl (Exn InvalidSignature [] None)
           | PKCS1v15 \<Rightarrow>
               if s = signed_content k pad h m then Inr ()
               else Inl (Exn InvalidSignature [] None)))"

definition demo_encode :: "str \<Rightarrow> exn + bytes" where
  "demo_encode s =
     (if list_all (\<lambda>c. c < 128) s then Inr (map char_of s)
      else Inl (Exn UnicodeEncodeError ''this environment encodes ASCII only'' None))"

definition demo_decode :: "bytes \<Rightarrow> exn + str" where
  "demo_decode b =
     (if list_all (\<lambda>c. (of_char c :: nat) < 128) b then Inr (map of_char b)
      else Inl (Exn UnicodeDecodeError ''this environment decodes ASCII only'' None))"

definition demo_env :: "(demo_priv, demo_pub, demo_hash) env" where
  "demo_env =
     \<lparr> str_encode = demo_encode,
       bytes_decode = demo_decode,
       load_pem_private_key = demo_load_private PEM,
       load_der_private_key = demo_load_private DER,
       load_pem_public_key = demo_load_public PEM,
       load_der_public_key = demo_load_public DER,
       isinstance_RSAPrivateKey = (\<lambda>sk. sk \<noteq> DemoPriv Ec),
       isinstance_RSAPublicKey = (\<lambda>pk. pk \<noteq> DemoPub Ec),
       private_bytes = demo_private_bytes,
       public_bytes = demo_public_bytes,
       public_key_of = (\<lambda>sk. case sk of DemoPriv k \<Rightarrow> DemoPub k),
       public_numbers = (\<lambda>pk. case pk of DemoPub k \<Rightarrow> demo_numbers k),
       generate_private_key = demo_generate,
       hashes_getattr = demo_hashes_getattr,
       key_sign = demo_sign,
       key_verify = demo_verify \<rparr>"


section \<open>Auxiliary facts\<close>

text \<open>\<open>bytes_in\<close> is the contiguous-sublist relation of the list library.\<close>

lemma bytes_in_iff_sublist: "bytes_in xs ys = sublist xs ys"
  by (induction ys) (auto simp: sublist_Cons_right)

text \<open>The constructor, branch by branch.\<close>

lemma RSAUtil_init_cases:
  assumes "RSAUtil_init E sd priv pub key_size public_exponent = Inr self"
  shows "(\<exists>k. private_key self = Some k \<and> public_key self = Some (public_key_of E k))
         \<or> (\<exists>p. priv = None \<and> pub = Some p \<and> private_key self = None \<and> public_key self = Some p)"
  using assms
  by (auto simp: RSAUtil_init_def split: option.splits sum.splits)

lemma RSAUtil_init_private:
  "RSAUtil_init E sd (Some k) pub key_size public_exponent =
     Inr \<lparr>private_key = Some k, public_key = Some (public_key_of E k)\<rparr>"
  by (simp add: RSAUtil_init_def)

lemma RSAUtil_init_public:
  "RSAUtil_init E sd None (Some p) key_size public_exponent =
     Inr \<lparr>private_key = None, public_key = Some p\<rparr>"
  by (simp add: RSAUtil_init_def)

text \<open>Which padding modes \<open>select_padding\<close> accepts.\<close>

lemma select_padding_supported:
  "(\<exists>pad. select_padding padding_mode h = Inr pad)
     \<longleftrightarrow> (upper padding_mode = ''PSS'' \<or> upper padding_mode = ''PKCS1V15'')"
  by (auto simp: select_padding_def)

text \<open>The small environment keeps the contracts.\<close>

lemma demo_sign_verify_contract: "sign_verify_contract demo_env"
  unfolding sign_verify_contract_def
proof (intro allI impI)
  fix sd k m and pad :: "demo_hash padding" and h s
  assume s: "key_sign demo_env sd k m pad h = Inr s"
  obtain kk where k: "k = DemoPriv kk" by (cases k)
  show "key_verify demo_env (public_key_of demo_env k) s m pad h = Inr ()"
    using s unfolding k
    by (cases pad) (auto simp: demo_env_def demo_sign_def demo_verify_def split: if_splits)
qed


text \<open>The round trips through the package, chained on the codec contracts.\<close>

lemma demo_private_codec_contract: "private_codec_contract demo_env"
  unfolding private_codec_contract_def
proof (intro allI impI)
  fix k fmt
  assume rsa: "isinstance_RSAPrivateKey demo_env k"
  obtain kk where k: "k = DemoPriv kk" by (cases k)
  from rsa k have "kk = RsaLarge \<or> kk = RsaSmall"
    by (cases kk) (auto simp: demo_env_def)
  then have "load_pem_private_key demo_env
               (pem_block (private_label kk fmt NoEncryption) (private_body kk NoEncryption)) None
             = Inr (DemoPriv kk)"
    by (cases fmt; elim disjE; hypsubst; code_simp)
  with rsa k
  show "\<exists>b k'. private_bytes demo_env k PEM fmt NoEncryption = Inr b \<and>
               load_pem_private_key demo_env b None = Inr k' \<and>
               isinstance_RSAPrivateKey demo_env k' \<and>
               public_numbers demo_env (public_key_of demo_env k')
                 = public_numbers demo_env (public_key_of demo_env k)"
    by (simp add: demo_env_def demo_private_bytes_def)
qed

lemma demo_public_codec_contract: "public_codec_contract demo_env"
  unfolding public_codec_contract_def
proof (intro allI impI)
  fix p fmt
  assume rsa: "isinstance_RSAPublicKey demo_env p"
  obtain kk where p: "p = DemoPub kk" by (cases p)
  from rsa p have kk: "kk = RsaLarge \<or> kk = RsaSmall"
    by (cases kk) (auto simp: demo_env_def)
  then have "load_pem_public_key demo_env
               (pem_block (if fmt = PKCS1 then ''RSA PUBLIC KEY'' else ''PUBLIC KEY'') (key_name kk))
             = Inr (DemoPub kk)"
    by (cases fmt; elim disjE; hypsubst; code_simp)
  with rsa p kk
  show "\<exists>b p'. public_bytes demo_env p PEM fmt = Inr b \<and>
               load_pem_public_key demo_env b = Inr p' \<and>
               isinstance_RSAPublicKey demo_env p' \<and>
               public_numbers demo_env p' = public_numbers demo_env p"
    by (auto simp: demo_env_def demo_public_bytes_def)
qed

lemma private_round_trip:
  assumes contract: "private_codec_contract E"
    and rsa: "isinstance_RSAPrivateKey E k"
  shows "\<exists>p1 p8 p1' k'.
           private_bytes E k PEM TraditionalOpenSSL NoEncryption = Inr p1
         \<and> pkcs1_to_pkcs8 E p1 = Inr p8
         \<and> pkcs8_to_pkcs1 E p8 = Inr p1'
         \<and> load_pem_private_key E p1' None = Inr k'
         \<and> public_numbers E (public_key_of E k') = public_numbers E (public_key_of E k)"
proof -
  from contract rsa obtain p1 k1 where
    a: "private_bytes E k PEM TraditionalOpenSSL NoEncryption = Inr p1"
       "load_pem_private_key E p1 None = Inr k1" "isinstance_RSAPrivateKey E k1"
       "public_numbers E (public_key_of E k1) = public_numbers E (public_key_of E k)"
    unfolding private_codec_contract_def by blast
  from contract a(3) obtain p8 k2 where
    b: "private_bytes E k1 PEM PKCS8 NoEncryption = Inr p8"
       "load_pem_private_key E p8 None = Inr k2" "isinstance_RSAPrivateKey E k2"
       "public_numbers E (public_key_of E k2) = public_numbers E (public_key_of E k1)"
    unfolding private_codec_contract_def by blast
  from contract b(3) obtain p1' k3 where
    c: "private_bytes E k2 PEM TraditionalOpenSSL NoEncryption = Inr p1'"
       "load_pem_private_key E p1' None = Inr k3"
       "public_numbers E (public_key_of E k3) = public_numbers E (public_key_of E k2)"
    unfolding private_codec_contract_def by blast
  have "pkcs1_to_pkcs8 E p1 = Inr p8" using a(2) b(1) by (simp add: pkcs1_to_pkcs8_def)
  moreover have "pkcs8_to_pkcs1 E p8 = Inr p1'" using b(2) c(1) by (simp add: pkcs8_to_pkcs1_def)
  moreover have "public_numbers E (public_key_of E k3) = public_numbers E (public_key_of E k)"
    using a(4) b(4) c(3) by simp
  ultimately show ?thesis using a(1) c(2) by blast
qed

lemma public_round_trip:
  assumes contract: "public_codec_contract E"
    and rsa: "isinstance_RSAPublicKey E p"
  shows "\<exists>q1 spki q1' p'.
           public_bytes E p PEM PKCS1 = Inr q1
         \<and> pkcs1_pub_to_spki E q1 = Inr spki
         \<and> spki_to_pkcs1_pub E spki = Inr q1'
         \<and> load_pem_public_key E q1' = Inr p'
         \<and> public_numbers E p' = public_numbers E p"
proof -
  from contract rsa obtain q1 p1 where
    a: "public_bytes E p PEM PKCS1 = Inr q1"
       "load_pem_public_key E q1 = Inr p1" "isinstance_RSAPublicKey E p1"
       "public_numbers E p1 = public_numbers E p"
    unfolding public_codec_contract_def by blast
  from contract a(3) obtain spki p2 where
    b: "public_bytes E p1 PEM SubjectPublicKeyInfo = Inr spki"
       "load_pem_public_key E spki = Inr p2" "isinstance_RSAPublicKey E p2"
       "public_numbers E p2 = public_numbers E p1"
    unfolding public_codec_contract_def by blast
  from contract b(3) obtain q1' p3 where
    c: "public_bytes E p2 PEM PKCS1 = Inr q1'"
       "load_pem_public_key E q1' = Inr p3"
       "public_numbers E p3 = public_numbers E p2"
    unfolding public_codec_contract_def by blast
  have "pkcs1_pub_to_spki E q1 = Inr spki" using a(2) b(1) by (simp add: pkcs1_pub_to_spki_def)
  moreover have "spki_to_pkcs1_pub E spki = Inr q1'"
    using b(2) b(3) c(1) by (simp add: spki_to_pkcs1_pub_def)
  moreover have "public_numbers E p3 = public_numbers E p"
    using a(4) b(4) c(3) by simp
  ultimately show ?thesis using a(1) c(2) by blast
qed


text \<open>The conversions, case by case.\<close>

lemma spki_to_pkcs1_pub_non_rsa:
  assumes "load_pem_public_key E spki_pem = Inr k" and "\<not> isinstance_RSAPublicKey E k"
  shows "spki_to_pkcs1_pub E spki_pem = Inl not_rsa_public_key"
  using assms by (simp add: spki_to_pkcs1_pub_def)

lemma spki_to_pkcs1_pub_returns:
  assumes "spki_to_pkcs1_pub E spki_pem = Inr out"
  shows "\<exists>k. load_pem_public_key E spki_pem = Inr k \<and> isinstance_RSAPublicKey E k
             \<and> public_bytes E k PEM PKCS1 = Inr out"
  using assms by (auto simp: spki_to_pkcs1_pub_def split: sum.splits if_splits)

lemma convert_public_key_auto_spki:
  assumes "bytes_in ''BEGIN PUBLIC KEY'' pem_data" and "\<not> bytes_in ''BEGIN RSA PUBLIC KEY'' pem_data"
  shows "snd (convert_public_key_auto E pem_data) = as_bytes (spki_to_pkcs1_pub E pem_data)"
  using assms by (simp add: convert_public_key_auto_def)

lemma decode_utf8_returns:
  "decode_utf8 E r = Inr v \<longleftrightarrow> (\<exists>b s. r = Inr b \<and> bytes_decode E b = Inr s \<and> v = PyStr s)"
  by (auto simp: decode_utf8_def split: sum.splits)

lemma as_bytes_returns: "as_bytes r = Inr v \<longleftrightarrow> (\<exists>b. r = Inr b \<and> v = PyBytes b)"
  by (auto simp: as_bytes_def split: sum.splits)


text \<open>\<open>verify\<close> on a supported scheme.\<close>

lemma verify_supported:
  assumes "hashes_getattr E (upper hash_alg) = Inr h"
    and "select_padding padding_mode h = Inr pad"
    and "public_key self = Some p"
  shows "verify E self message signature padding_mode hash_alg =
           (case key_verify E p signature message pad h of
              Inr u \<Rightarrow> Inr True
            | Inl e \<Rightarrow> if caught_by e InvalidSignature then Inr False else Inl e)"
  using assms by (simp add: verify_def)

text \<open>
  The validators, outcome by outcome. On an input that is bytes, or text that encodes,
  each attempts a PEM parse and, when that raises a \<open>ValueError\<close>, a DER parse. It
  returns true exactly when the parse that answered returned an RSA key; it raises
  exactly when the PEM parse raises an exception that is not a \<open>ValueError\<close>, or the
  DER parse raises one that is not an \<open>Exception\<close>; in every other case it returns
  false.
\<close>

lemma is_valid_rsa_private_key_true:
  assumes "encode_if_str E data = Inr d"
  shows "is_valid_rsa_private_key E data = Inr True \<longleftrightarrow>
           (\<exists>k. isinstance_RSAPrivateKey E k \<and>
                (load_pem_private_key E d None = Inr k
                 \<or> (\<exists>e. load_pem_private_key E d None = Inl e \<and> caught_by e ValueError
                        \<and> load_der_private_key E d None = Inr k)))"
  using assms by (auto simp: is_valid_rsa_private_key_def split: sum.splits if_splits)

lemma is_valid_rsa_private_key_raises:
  assumes "encode_if_str E data = Inr d"
  shows "is_valid_rsa_private_key E data = Inl x \<longleftrightarrow>
           (load_pem_private_key E d None = Inl x \<and> \<not> caught_by x ValueError)
           \<or> (\<exists>e. load_pem_private_key E d None = Inl e \<and> caught_by e ValueError
                  \<and> load_der_private_key E d None = Inl x \<and> \<not> caught_by x Exception)"
  using assms by (auto simp: is_valid_rsa_private_key_def split: sum.splits if_splits)

lemma is_valid_rsa_public_key_true:
  assumes "encode_if_str E data = Inr d"
  shows "is_valid_rsa_public_key E data = Inr True \<longleftrightarrow>
           (\<exists>k. isinstance_RSAPublicKey E k \<and>
                (load_pem_public_key E d = Inr k
                 \<or> (\<exists>e. load_pem_public_key E d = Inl e \<and> caught_by e ValueError
                        \<and> load_der_public_key E d = Inr k)))"
  using assms by (auto simp: is_valid_rsa_public_key_def split: sum.splits if_splits)

lemma is_valid_rsa_public_key_raises:
  assumes "encode_if_str E data = Inr d"
  shows "is_valid_rsa_public_key E data = Inl x \<longleftrightarrow>
           (load_pem_public_key E d = Inl x \<and> \<not> caught_by x ValueError)
           \<or> (\<exists>e. load_pem_public_key E d = Inl e \<and> caught_by e ValueError
                  \<and> load_der_public_key E d = Inl x \<and> \<not> caught_by x Exception)"
  using assms by (auto simp: is_valid_rsa_public_key_def split: sum.splits if_splits)

lemma is_valid_outcomes:
  assumes "encode_if_str E data = Inr d"
  shows "(is_valid_rsa_private_key E data = Inr True \<longleftrightarrow>
            (\<exists>k. isinstance_RSAPrivateKey E k \<and>
                 (load_pem_private_key E d None = Inr k
                  \<or> (\<exists>e. load_pem_private_key E d None = Inl e \<and> caught_by e ValueError
                         \<and> load_der_private_key E d None = Inr k))))
       \<and> (is_valid_rsa_private_key E data = Inl x \<longleftrightarrow>
            (load_pem_private_key E d None = Inl x \<and> \<not> caught_by x ValueError)
            \<or> (\<exists>e. load_pem_private_key E d None = Inl e \<and> caught_by e ValueError
                   \<and> load_der_private_key E d None = Inl x \<and> \<not> caught_by x Exception))
       \<and> (is_valid_rsa_public_key E data = Inr True \<longleftrightarrow>
            (\<exists>k. isinstance_RSAPublicKey E k \<and>
                 (load_pem_public_key E d = Inr k
                  \<or> (\<exists>e. load_pem_public_key E d = Inl e \<and> caught_by e ValueError
                         \<and> load_der_public_key E d = Inr k))))
       \<and> (is_valid_rsa_public_key E data = Inl x \<longleftrightarrow>
            (load_pem_public_key E d = Inl x \<and> \<not> caught_by x ValueError)
            \<or> (\<exists>e. load_pem_public_key E d = Inl e \<and> caught_by e ValueError
                   \<and> load_der_public_key E d = Inl x \<and> \<not> caught_by x Exception))"
  using is_valid_rsa_private_key_true [OF assms] is_valid_rsa_private_key_raises [OF assms]
    is_valid_rsa_public_key_true [OF assms] is_valid_rsa_public_key_raises [OF assms]
  by blast


text \<open>\<open>from_pem\<close> by the outcome of the private-key parse, and the engine without a private key.\<close>

lemma from_pem_private:
  assumes "load_pem_private_key E pem_bytes password = Inr k"
  shows "from_pem E sd pem_bytes password
           = Inr \<lparr>private_key = Some k, public_key = Some (public_key_of E k)\<rparr>"
  using assms by (simp add: from_pem_def RSAUtil_init_def)

lemma from_pem_propagates:
  assumes "load_pem_private_key E pem_bytes password = Inl e" and "\<not> caught_by e ValueError"
  shows "from_pem E sd pem_bytes password = Inl e"
  using assms by (simp add: from_pem_def)

lemma from_pem_public:
  assumes "load_pem_private_key E pem_bytes password = Inl e" and "caught_by e ValueError"
  shows "from_pem E sd pem_bytes password =
           (case load_pem_public_key E pem_bytes of
              Inr p \<Rightarrow> Inr \<lparr>private_key = None, public_key = Some p\<rparr>
            | Inl e' \<Rightarrow> if caught_by e' Exception then Inl (neither_private_nor_public e')
                        else Inl e')"
  using assms by (simp add: from_pem_def RSAUtil_init_def split: sum.splits)

lemma export_private_key_public_only:
  assumes "private_key self = None"
  shows "export_private_key E self encoding format password
           = Inl (none_has_no_attribute ''private_bytes'')"
  using assms by (simp add: export_private_key_def Let_def)

lemma sign_public_only:
  assumes "private_key self = None"
  shows "sign E sd self message padding_mode hash_alg =
           (case hashes_getattr E (upper hash_alg) of
              Inl e \<Rightarrow> Inl e
            | Inr h \<Rightarrow>
                (case select_padding padding_mode h of
                   Inl e \<Rightarrow> Inl e
                 | Inr pad \<Rightarrow> Inl (none_has_no_attribute ''sign'')))"
  using assms by (simp add: sign_def split: sum.splits)


section \<open>Signing and verifying\<close>

text \<open>
  C1, as the specification states it: for every key pair, message and supported scheme,
  \<open>verify\<close> returns true on the signature that \<open>sign\<close> of the same engine produces.
  \<open>sign\<close> has no handler around the package's \<open>sign\<close>, which raises \<open>ValueError\<close> when
  the digest is too large for the key. On an engine loaded from the PEM of the 64-byte
  RSA private key, under PSS with SHA512, a supported scheme, \<open>sign\<close> raises: there is
  no signature for \<open>verify\<close> to accept.
\<close>

theorem sign_raises_counterexample:
  "from_pem demo_env 0 (pem_block ''RSA PRIVATE KEY'' ''rsa-small'') None
     = Inr \<lparr>private_key = Some (DemoPriv RsaSmall), public_key = Some (DemoPub RsaSmall)\<rparr>
   \<and> hashes_getattr demo_env (upper ''SHA512'') = Inr DemoSHA512
   \<and> upper ''PSS'' = ''PSS''
   \<and> sign demo_env 0
        \<lparr>private_key = Some (DemoPriv RsaSmall), public_key = Some (DemoPub RsaSmall)\<rparr>
        ''hello'' ''PSS'' ''SHA512'' = Inl digest_too_large"
proof -
  have "from_pem demo_env 0 (pem_block ''RSA PRIVATE KEY'' ''rsa-small'') None
     = Inr \<lparr>private_key = Some (DemoPriv RsaSmall), public_key = Some (DemoPub RsaSmall)\<rparr>"
    by code_simp
  moreover have "hashes_getattr demo_env (upper ''SHA512'') = Inr DemoSHA512" by code_simp
  moreover have "upper ''PSS'' = ''PSS''" by code_simp
  moreover have "sign demo_env 0
        \<lparr>private_key = Some (DemoPriv RsaSmall), public_key = Some (DemoPub RsaSmall)\<rparr>
        ''hello'' ''PSS'' ''SHA512'' = Inl digest_too_large"
    by code_simp
  ultimately show ?thesis by blast
qed

text \<open>
  C1, amended. For every key pair, message and supported scheme, on an engine the
  constructor returned, \<open>sign\<close> is the package's \<open>sign\<close> of the private key with the hash
  and padding objects of the scheme: it returns what the package's \<open>sign\<close> returns and
  raises what it raises. On every signature that \<open>sign\<close> returns, \<open>verify\<close> of the same
  engine returns true for the message under that scheme. The package enters through
  \<open>sign_verify_contract\<close>; the engine's part is that both methods build the same objects
  and that the public key is the private key's own.
\<close>

theorem sign_then_verify:
  assumes contract: "sign_verify_contract E"
    and init: "RSAUtil_init E sd0 priv pub key_size public_exponent = Inr self"
    and pair: "private_key self = Some k"
    and scheme: "supported_scheme E padding_mode hash_alg"
  shows "\<exists>h pad. hashes_getattr E (upper hash_alg) = Inr h
           \<and> select_padding padding_mode h = Inr pad
           \<and> sign E sd self message padding_mode hash_alg = key_sign E sd k message pad h
           \<and> (\<forall>signature. sign E sd self message padding_mode hash_alg = Inr signature \<longrightarrow>
                 verify E self message signature padding_mode hash_alg = Inr True)"
proof -
  from scheme obtain h where h: "hashes_getattr E (upper hash_alg) = Inr h"
    and "upper padding_mode = ''PSS'' \<or> upper padding_mode = ''PKCS1V15''"
    unfolding supported_scheme_def by blast
  then obtain pad where pad: "select_padding padding_mode h = Inr pad"
    using select_padding_supported [of padding_mode h] by blast
  from RSAUtil_init_cases [OF init] pair
  have p: "public_key self = Some (public_key_of E k)" by auto
  have s: "sign E sd self message padding_mode hash_alg = key_sign E sd k message pad h"
    using h pad pair by (simp add: sign_def)
  have "verify E self message signature padding_mode hash_alg = Inr True"
    if "sign E sd self message padding_mode hash_alg = Inr signature" for signature
  proof -
    from that s have "key_sign E sd k message pad h = Inr signature" by simp
    with contract
    have "key_verify E (public_key_of E k) signature message pad h = Inr ()"
      unfolding sign_verify_contract_def by blast
    with h pad p show ?thesis by (simp add: verify_def)
  qed
  with h pad s show ?thesis by blast
qed

theorem sign_then_verify_witness:
  "supported_scheme demo_env ''pss'' ''sha256''
   \<and> sign demo_env 7 \<lparr>private_key = Some (DemoPriv RsaLarge), public_key = Some (DemoPub RsaLarge)\<rparr>
      ''hello'' ''pss'' ''sha256'' = Inr (CHR 0x07 # ''rsa-large|pss|sha256|hello'')
   \<and> verify demo_env \<lparr>private_key = Some (DemoPriv RsaLarge), public_key = Some (DemoPub RsaLarge)\<rparr>
      ''hello'' (CHR 0x07 # ''rsa-large|pss|sha256|hello'') ''pss'' ''sha256'' = Inr True"
proof -
  let ?self = "\<lparr>private_key = Some (DemoPriv RsaLarge), public_key = Some (DemoPub RsaLarge)\<rparr>"
  have g: "RSAUtil_init demo_env 0 None None 2048 65537 = Inr ?self"
    by (simp add: RSAUtil_init_def demo_env_def demo_generate_def)
  have k: "private_key ?self = Some (DemoPriv RsaLarge)" by simp
  have "hashes_getattr demo_env (upper ''sha256'') = Inr DemoSHA256" by code_simp
  moreover have "upper ''pss'' = ''PSS''" by code_simp
  ultimately have sc: "supported_scheme demo_env ''pss'' ''sha256''"
    unfolding supported_scheme_def by blast
  have s: "sign demo_env 7 ?self ''hello'' ''pss'' ''sha256''
             = Inr (CHR 0x07 # ''rsa-large|pss|sha256|hello'')"
    by code_simp
  from sign_then_verify [OF demo_sign_verify_contract g k sc, of 7 "''hello''"] s sc
  show ?thesis by auto
qed


text \<open>
  C2, as the specification states it: for every message, signature and supported scheme,
  \<open>verify\<close> never raises. The handler of \<open>verify\<close> names \<open>InvalidSignature\<close> only, so
  any other exception of the package's verification leaves the method. In the small
  environment, as in the package, PSS with a digest too large for the key raises
  \<open>ValueError\<close>: an engine loaded from the PEM of the 64-byte RSA public key raises it
  under PSS with SHA512, a supported scheme.
\<close>

theorem verify_raises_counterexample:
  "from_pem demo_env 0 (pem_block ''PUBLIC KEY'' ''rsa-small'') None
     = Inr \<lparr>private_key = None, public_key = Some (DemoPub RsaSmall)\<rparr>
   \<and> hashes_getattr demo_env (upper ''SHA512'') = Inr DemoSHA512
   \<and> upper ''PSS'' = ''PSS''
   \<and> verify demo_env \<lparr>private_key = None, public_key = Some (DemoPub RsaSmall)\<rparr>
        ''hello'' ''no signature'' ''PSS'' ''SHA512'' = Inl digest_too_large"
proof -
  have "from_pem demo_env 0 (pem_block ''PUBLIC KEY'' ''rsa-small'') None
     = Inr \<lparr>private_key = None, public_key = Some (DemoPub RsaSmall)\<rparr>"
    by code_simp
  moreover have "hashes_getattr demo_env (upper ''SHA512'') = Inr DemoSHA512" by code_simp
  moreover have "upper ''PSS'' = ''PSS''" by code_simp
  moreover have "verify demo_env \<lparr>private_key = None, public_key = Some (DemoPub RsaSmall)\<rparr>
        ''hello'' ''no signature'' ''PSS'' ''SHA512'' = Inl digest_too_large"
    by code_simp
  ultimately show ?thesis by blast
qed

text \<open>
  C2, amended. For every message and signature, on an engine that holds a public key:
  for every scheme whose padding is PSS or PKCS1v15 and whose hash name is supported,
  \<open>verify\<close> returns true exactly when the package's verification (under PSS with MGF1
  and the maximal salt length, or under PKCS1v15) returns, returns false exactly when it
  raises \<open>InvalidSignature\<close>, and raises exactly the exceptions of the package's
  verification that are not \<open>InvalidSignature\<close>. When the hash name is not supported,
  \<open>verify\<close> raises the error of the lookup; when the hash name is supported and the
  padding is neither PSS nor PKCS1v15, it raises the \<open>ValueError\<close> for the padding mode.
\<close>

theorem verify_outcomes:
  "(\<forall>h pad p.
       hashes_getattr E (upper hash_alg) = Inr h
     \<and> (upper padding_mode = ''PSS'' \<or> upper padding_mode = ''PKCS1V15'')
     \<and> pad = (if upper padding_mode = ''PSS'' then PSS (MGF1 h) MAX_LENGTH else PKCS1v15)
     \<and> public_key self = Some p \<longrightarrow>
       (verify E self message signature padding_mode hash_alg = Inr True
          \<longleftrightarrow> key_verify E p signature message pad h = Inr ())
     \<and> (verify E self message signature padding_mode hash_alg = Inr False
          \<longleftrightarrow> (\<exists>e. key_verify E p signature message pad h = Inl e \<and> caught_by e InvalidSignature))
     \<and> (\<forall>x. verify E self message signature padding_mode hash_alg = Inl x
          \<longleftrightarrow> key_verify E p signature message pad h = Inl x \<and> \<not> caught_by x InvalidSignature))
   \<and> (\<forall>e. hashes_getattr E (upper hash_alg) = Inl e \<longrightarrow>
         verify E self message signature padding_mode hash_alg = Inl e)
   \<and> (\<forall>h. hashes_getattr E (upper hash_alg) = Inr h
         \<and> upper padding_mode \<noteq> ''PSS'' \<and> upper padding_mode \<noteq> ''PKCS1V15'' \<longrightarrow>
         verify E self message signature padding_mode hash_alg
           = Inl (Exn ValueError (''Unsupported padding_mode: '' @ padding_mode) None))"
proof (intro conjI allI impI)
  fix h pad p
  assume a: "hashes_getattr E (upper hash_alg) = Inr h
     \<and> (upper padding_mode = ''PSS'' \<or> upper padding_mode = ''PKCS1V15'')
     \<and> pad = (if upper padding_mode = ''PSS'' then PSS (MGF1 h) MAX_LENGTH else PKCS1v15)
     \<and> public_key self = Some p"
  then have sp: "select_padding padding_mode h = Inr pad"
    by (auto simp: select_padding_def)
  note v = verify_supported [OF _ sp, of E hash_alg self p message signature]
  from a v show "verify E self message signature padding_mode hash_alg = Inr True
          \<longleftrightarrow> key_verify E p signature message pad h = Inr ()"
    by (auto split: sum.splits)
  from a v show "verify E self message signature padding_mode hash_alg = Inr False
          \<longleftrightarrow> (\<exists>e. key_verify E p signature message pad h = Inl e \<and> caught_by e InvalidSignature)"
    by (auto split: sum.splits)
  fix x
  from a v show "verify E self message signature padding_mode hash_alg = Inl x
          \<longleftrightarrow> key_verify E p signature message pad h = Inl x \<and> \<not> caught_by x InvalidSignature"
    by (auto split: sum.splits)
next
  fix e
  assume "hashes_getattr E (upper hash_alg) = Inl e"
  then show "verify E self message signature padding_mode hash_alg = Inl e"
    by (simp add: verify_def)
next
  fix h
  assume "hashes_getattr E (upper hash_alg) = Inr h
         \<and> upper padding_mode \<noteq> ''PSS'' \<and> upper padding_mode \<noteq> ''PKCS1V15''"
  then show "verify E self message signature padding_mode hash_alg
           = Inl (Exn ValueError (''Unsupported padding_mode: '' @ padding_mode) None)"
    by (simp add: verify_def select_padding_def)
qed

theorem verify_outcomes_witness:
  "verify demo_env \<lparr>private_key = None, public_key = Some (DemoPub RsaLarge)\<rparr>
      ''hello'' ''rsa-large|pkcs1v15|sha256|hello'' ''PKCS1v15'' ''sha256'' = Inr True
   \<and> verify demo_env \<lparr>private_key = None, public_key = Some (DemoPub RsaLarge)\<rparr>
      ''hullo'' ''rsa-large|pkcs1v15|sha256|hello'' ''PKCS1v15'' ''sha256'' = Inr False
   \<and> verify demo_env \<lparr>private_key = None, public_key = Some (DemoPub Ec)\<rparr>
      ''hello'' ''rsa-large|pkcs1v15|sha256|hello'' ''PKCS1v15'' ''sha256'' = Inl not_an_rsa_key
   \<and> verify demo_env \<lparr>private_key = None, public_key = Some (DemoPub RsaLarge)\<rparr>
      ''hello'' ''rsa-large|pkcs1v15|sha256|hello'' ''PKCS1v15'' ''md4''
       = Inl (Exn AttributeError ''module has no attribute MD4'' None)
   \<and> verify demo_env \<lparr>private_key = None, public_key = Some (DemoPub RsaLarge)\<rparr>
      ''hello'' ''rsa-large|pkcs1v15|sha256|hello'' ''oaep'' ''sha256''
       = Inl (Exn ValueError ''Unsupported padding_mode: oaep'' None)"
proof -
  let ?s = "''rsa-large|pkcs1v15|sha256|hello''"
  let ?large = "\<lparr>private_key = None, public_key = Some (DemoPub RsaLarge)\<rparr>"
  let ?ec = "\<lparr>private_key = None, public_key = Some (DemoPub Ec)\<rparr>"
  have h: "hashes_getattr demo_env (upper ''sha256'') = Inr DemoSHA256" by code_simp
  have u: "upper ''PKCS1v15'' = ''PKCS1V15''" by code_simp
  have pad: "PKCS1v15 = (if upper ''PKCS1v15'' = ''PSS'' then PSS (MGF1 DemoSHA256) MAX_LENGTH
                         else PKCS1v15)"
    unfolding u by simp
  have p: "public_key ?large = Some (DemoPub RsaLarge)" by simp
  have q: "public_key ?ec = Some (DemoPub Ec)" by simp
  have a: "key_verify demo_env (DemoPub RsaLarge) ?s ''hello'' PKCS1v15 DemoSHA256 = Inr ()"
    by code_simp
  have b: "key_verify demo_env (DemoPub RsaLarge) ?s ''hullo'' PKCS1v15 DemoSHA256
             = Inl (Exn InvalidSignature [] None)
           \<and> caught_by (Exn InvalidSignature [] None) InvalidSignature"
    by code_simp
  have c: "key_verify demo_env (DemoPub Ec) ?s ''hello'' PKCS1v15 DemoSHA256 = Inl not_an_rsa_key
           \<and> \<not> caught_by not_an_rsa_key InvalidSignature"
    by code_simp
  have d: "hashes_getattr demo_env (upper ''md4'')
             = Inl (Exn AttributeError ''module has no attribute MD4'' None)"
    by code_simp
  have e: "upper ''oaep'' \<noteq> ''PSS'' \<and> upper ''oaep'' \<noteq> ''PKCS1V15''" by code_simp
  from verify_outcomes [of demo_env "''sha256''" "''PKCS1v15''" ?large "''hello''" ?s] h u pad p a
  have "verify demo_env ?large ''hello'' ?s ''PKCS1v15'' ''sha256'' = Inr True" by blast
  moreover
  from verify_outcomes [of demo_env "''sha256''" "''PKCS1v15''" ?large "''hullo''" ?s] h u pad p b
  have "verify demo_env ?large ''hullo'' ?s ''PKCS1v15'' ''sha256'' = Inr False" by blast
  moreover
  from verify_outcomes [of demo_env "''sha256''" "''PKCS1v15''" ?ec "''hello''" ?s] h u pad q c
  have "verify demo_env ?ec ''hello'' ?s ''PKCS1v15'' ''sha256'' = Inl not_an_rsa_key" by blast
  moreover
  from verify_outcomes [of demo_env "''md4''" "''PKCS1v15''" ?large "''hello''" ?s] d
  have "verify demo_env ?large ''hello'' ?s ''PKCS1v15'' ''md4''
          = Inl (Exn AttributeError ''module has no attribute MD4'' None)" by blast
  moreover
  from verify_outcomes [of demo_env "''sha256''" "''oaep''" ?large "''hello''" ?s] h e
  have "verify demo_env ?large ''hello'' ?s ''oaep'' ''sha256''
          = Inl (Exn ValueError (''Unsupported padding_mode: '' @ ''oaep'') None)" by blast
  ultimately show ?thesis by simp
qed


section \<open>Validation and the exceptions of the PEM parse\<close>

text \<open>
  C3. The specification has the validators never raise: every failure of the PEM parse
  and of the DER parse that follows it becomes the result false. The handler of the DER
  parse does that (\<open>except Exception\<close>); the handler of the PEM parse names
  \<open>ValueError\<close> only. A password-protected private key, loaded without a password,
  makes the package raise \<open>TypeError\<close>. So on the key that \<open>export_private_key\<close>
  exports with a password, the private-key validator answers false when the key is
  exported in DER, and raises when it is exported in PEM.
\<close>

theorem is_valid_rsa_private_key_encrypted_pem_raises:
  "export_private_key demo_env
      \<lparr>private_key = Some (DemoPriv RsaLarge), public_key = Some (DemoPub RsaLarge)\<rparr>
      ''PEM'' ''PKCS8'' (Some ''secret'')
     = Inr (pem_block ''ENCRYPTED PRIVATE KEY'' ''rsa-large/secret'')
   \<and> is_valid_rsa_private_key demo_env
      (PyBytes (pem_block ''ENCRYPTED PRIVATE KEY'' ''rsa-large/secret''))
     = Inl (Exn TypeError ''Password was not given but private key is encrypted'' None)
   \<and> export_private_key demo_env
      \<lparr>private_key = Some (DemoPriv RsaLarge), public_key = Some (DemoPub RsaLarge)\<rparr>
      ''DER'' ''PKCS8'' (Some ''secret'')
     = Inr (der_blob ''ENCRYPTED PRIVATE KEY'' ''rsa-large/secret'')
   \<and> is_valid_rsa_private_key demo_env
      (PyBytes (der_blob ''ENCRYPTED PRIVATE KEY'' ''rsa-large/secret''))
     = Inr False"
  by code_simp


section \<open>Loading an engine from PEM\<close>

text \<open>
  C4, as the specification states it: whenever the private-key parse fails, the public-key
  parse is attempted, and a handle is returned unless both fail. The handler of the
  private-key parse names \<open>ValueError\<close> only. On a buffer that holds a public key
  followed by a password-protected private key, loaded without a password, the
  private-key parse finds the private key and raises \<open>TypeError\<close>; the public-key parse
  would return the public key, but \<open>from_pem\<close> raises the \<open>TypeError\<close>.
\<close>

theorem from_pem_skips_public_parse_counterexample:
  "load_pem_private_key demo_env
      (pem_block ''PUBLIC KEY'' ''rsa-large'' @ pem_block ''ENCRYPTED PRIVATE KEY'' ''rsa-large/secret'')
      None
     = Inl (Exn TypeError ''Password was not given but private key is encrypted'' None)
   \<and> load_pem_public_key demo_env
      (pem_block ''PUBLIC KEY'' ''rsa-large'' @ pem_block ''ENCRYPTED PRIVATE KEY'' ''rsa-large/secret'')
     = Inr (DemoPub RsaLarge)
   \<and> from_pem demo_env 0
      (pem_block ''PUBLIC KEY'' ''rsa-large'' @ pem_block ''ENCRYPTED PRIVATE KEY'' ''rsa-large/secret'')
      None
     = Inl (Exn TypeError ''Password was not given but private key is encrypted'' None)"
proof -
  let ?d = "pem_block ''PUBLIC KEY'' ''rsa-large'' @ pem_block ''ENCRYPTED PRIVATE KEY'' ''rsa-large/secret''"
  let ?e = "Exn TypeError ''Password was not given but private key is encrypted'' None"
  have a: "load_pem_private_key demo_env ?d None = Inl ?e" by code_simp
  have b: "load_pem_public_key demo_env ?d = Inr (DemoPub RsaLarge)" by code_simp
  have c: "\<not> caught_by ?e ValueError" by (simp add: caught_by_def)
  have "from_pem demo_env 0 ?d None = Inl ?e"
    using a c by (simp add: from_pem_def)
  with a b show ?thesis by blast
qed

text \<open>
  C4, amended. \<open>from_pem\<close> first attempts a private-key parse and, whenever that parse
  raises a \<open>ValueError\<close>, a public-key parse. It returns exactly the handle of the kind
  that parsed: the key pair of the private key, or the public key alone. It raises the
  \<open>ValueError\<close> the specification calls InvalidKey exactly when the private-key parse
  raises a \<open>ValueError\<close> and the public-key parse raises an \<open>Exception\<close>; an exception
  of the private-key parse that is not a \<open>ValueError\<close> is raised as it is, and so is one
  of the public-key parse that is not an \<open>Exception\<close>.
\<close>

theorem from_pem_outcomes:
  "(from_pem E sd pem_bytes password = Inr self \<longleftrightarrow>
      (\<exists>k. load_pem_private_key E pem_bytes password = Inr k
          \<and> self = \<lparr>private_key = Some k, public_key = Some (public_key_of E k)\<rparr>)
      \<or> (\<exists>e p. load_pem_private_key E pem_bytes password = Inl e \<and> caught_by e ValueError
              \<and> load_pem_public_key E pem_bytes = Inr p
              \<and> self = \<lparr>private_key = None, public_key = Some p\<rparr>))
   \<and> (from_pem E sd pem_bytes password = Inl x \<longleftrightarrow>
      (load_pem_private_key E pem_bytes password = Inl x \<and> \<not> caught_by x ValueError)
      \<or> (\<exists>e e'. load_pem_private_key E pem_bytes password = Inl e \<and> caught_by e ValueError
               \<and> load_pem_public_key E pem_bytes = Inl e'
               \<and> x = (if caught_by e' Exception then neither_private_nor_public e' else e')))"
proof (cases "load_pem_private_key E pem_bytes password")
  case (Inr k)
  from from_pem_private [OF Inr] Inr show ?thesis by auto
next
  case (Inl e)
  show ?thesis
  proof (cases "caught_by e ValueError")
    case False
    from from_pem_propagates [OF Inl False] Inl False show ?thesis by auto
  next
    case True
    from from_pem_public [OF Inl True] Inl True show ?thesis
      by (cases "load_pem_public_key E pem_bytes") auto
  qed
qed

theorem from_pem_outcomes_witness:
  "from_pem demo_env 0 (pem_block ''PUBLIC KEY'' ''rsa-large'') None
     = Inr \<lparr>private_key = None, public_key = Some (DemoPub RsaLarge)\<rparr>
   \<and> from_pem demo_env 0 ''no key at all'' None
     = Inl (neither_private_nor_public could_not_deserialize)"
proof -
  let ?d = "pem_block ''PUBLIC KEY'' ''rsa-large''"
  have a: "load_pem_private_key demo_env ?d None = Inl could_not_deserialize
           \<and> caught_by could_not_deserialize ValueError
           \<and> load_pem_public_key demo_env ?d = Inr (DemoPub RsaLarge)"
    by code_simp
  have b: "load_pem_private_key demo_env ''no key at all'' None = Inl could_not_deserialize
           \<and> caught_by could_not_deserialize ValueError
           \<and> load_pem_public_key demo_env ''no key at all'' = Inl could_not_deserialize
           \<and> caught_by could_not_deserialize Exception"
    by code_simp
  from from_pem_outcomes
         [of demo_env 0 ?d None "\<lparr>private_key = None, public_key = Some (DemoPub RsaLarge)\<rparr>"] a
  have "from_pem demo_env 0 ?d None
          = Inr \<lparr>private_key = None, public_key = Some (DemoPub RsaLarge)\<rparr>"
    by blast
  moreover
  from from_pem_outcomes
         [where E = demo_env and sd = 0 and pem_bytes = "''no key at all''" and password = None
            and x = "neither_private_nor_public could_not_deserialize", THEN conjunct2] b
  have "from_pem demo_env 0 ''no key at all'' None
          = Inl (neither_private_nor_public could_not_deserialize)"
    by auto
  ultimately show ?thesis by blast
qed


section \<open>An engine without a private key\<close>

text \<open>
  C5, as the specification states it: on an engine built from a public key, \<open>sign\<close>
  fails with NoPrivateKey for any message and scheme. \<open>sign\<close> looks the hash up and
  builds the padding before it touches the private key, so with a padding mode it does
  not know it raises the \<open>ValueError\<close> for the padding mode, not the error of the
  missing key.
\<close>

theorem sign_public_only_counterexample:
  "RSAUtil_init demo_env 0 None (Some (DemoPub RsaLarge)) 2048 65537
     = Inr \<lparr>private_key = None, public_key = Some (DemoPub RsaLarge)\<rparr>
   \<and> sign demo_env 0 \<lparr>private_key = None, public_key = Some (DemoPub RsaLarge)\<rparr>
        ''hello'' ''OAEP'' ''SHA256''
     = Inl (Exn ValueError ''Unsupported padding_mode: OAEP'' None)
   \<and> Exn ValueError ''Unsupported padding_mode: OAEP'' None \<noteq> none_has_no_attribute ''sign''"
proof -
  have "RSAUtil_init demo_env 0 None (Some (DemoPub RsaLarge)) 2048 65537
     = Inr \<lparr>private_key = None, public_key = Some (DemoPub RsaLarge)\<rparr>"
    by (simp add: RSAUtil_init_def)
  moreover have "sign demo_env 0 \<lparr>private_key = None, public_key = Some (DemoPub RsaLarge)\<rparr>
        ''hello'' ''OAEP'' ''SHA256''
     = Inl (Exn ValueError ''Unsupported padding_mode: OAEP'' None)"
    by code_simp
  moreover have "Exn ValueError ''Unsupported padding_mode: OAEP'' None \<noteq> none_has_no_attribute ''sign''"
    by (simp add: none_has_no_attribute_def)
  ultimately show ?thesis by blast
qed

text \<open>
  C5, amended. On every engine built from a public key, \<open>export_private_key\<close> fails, for
  any container, format and password, with the \<open>AttributeError\<close> Python raises for the
  missing private key (the specification's NoPrivateKey). \<open>sign\<close> fails for any message
  and scheme: with the error of the lookup when the hash name is not supported, with the
  \<open>ValueError\<close> for the padding mode when the hash name is supported and the padding is
  neither PSS nor PKCS1v15, and with the \<open>AttributeError\<close> for the missing private key
  when the scheme is supported.
\<close>

theorem public_only_engine_has_no_private_key:
  assumes "RSAUtil_init E sd0 None (Some p) key_size public_exponent = Inr self"
  shows "export_private_key E self encoding format password
           = Inl (none_has_no_attribute ''private_bytes'')
       \<and> (\<forall>e. hashes_getattr E (upper hash_alg) = Inl e \<longrightarrow>
             sign E sd self message padding_mode hash_alg = Inl e)
       \<and> (\<forall>h. hashes_getattr E (upper hash_alg) = Inr h
             \<and> upper padding_mode \<noteq> ''PSS'' \<and> upper padding_mode \<noteq> ''PKCS1V15'' \<longrightarrow>
             sign E sd self message padding_mode hash_alg
               = Inl (Exn ValueError (''Unsupported padding_mode: '' @ padding_mode) None))
       \<and> (supported_scheme E padding_mode hash_alg \<longrightarrow>
            sign E sd self message padding_mode hash_alg = Inl (none_has_no_attribute ''sign''))
       \<and> (\<exists>e. sign E sd self message padding_mode hash_alg = Inl e)"
proof -
  from assms have n: "private_key self = None"
    by (auto simp: RSAUtil_init_public)
  note s = sign_public_only [OF n, of E sd message padding_mode hash_alg]
  have "sign E sd self message padding_mode hash_alg = Inl e"
    if "hashes_getattr E (upper hash_alg) = Inl e" for e
    using that by (simp add: s)
  moreover have "sign E sd self message padding_mode hash_alg
               = Inl (Exn ValueError (''Unsupported padding_mode: '' @ padding_mode) None)"
    if "hashes_getattr E (upper hash_alg) = Inr h
          \<and> upper padding_mode \<noteq> ''PSS'' \<and> upper padding_mode \<noteq> ''PKCS1V15''" for h
    using that by (simp add: s select_padding_def)
  moreover have "sign E sd self message padding_mode hash_alg = Inl (none_has_no_attribute ''sign'')"
    if "supported_scheme E padding_mode hash_alg"
  proof -
    from that obtain h where h: "hashes_getattr E (upper hash_alg) = Inr h"
      and "upper padding_mode = ''PSS'' \<or> upper padding_mode = ''PKCS1V15''"
      unfolding supported_scheme_def by blast
    then obtain pad where "select_padding padding_mode h = Inr pad"
      using select_padding_supported [of padding_mode h] by blast
    with h show ?thesis by (simp add: s)
  qed
  moreover have "\<exists>e. sign E sd self message padding_mode hash_alg = Inl e"
    by (simp add: s split: sum.splits)
  ultimately show ?thesis
    using export_private_key_public_only [OF n] by blast
qed

theorem public_only_engine_has_no_private_key_witness:
  "supported_scheme demo_env ''pkcs1v15'' ''sha512''
   \<and> sign demo_env 3 \<lparr>private_key = None, public_key = Some (DemoPub RsaLarge)\<rparr>
        ''hello'' ''pkcs1v15'' ''sha512'' = Inl (none_has_no_attribute ''sign'')
   \<and> sign demo_env 3 \<lparr>private_key = None, public_key = Some (DemoPub RsaLarge)\<rparr>
        ''hello'' ''pkcs1v15'' ''md4'' = Inl (Exn AttributeError ''module has no attribute MD4'' None)
   \<and> sign demo_env 3 \<lparr>private_key = None, public_key = Some (DemoPub RsaLarge)\<rparr>
        ''hello'' ''oaep'' ''sha512'' = Inl (Exn ValueError ''Unsupported padding_mode: oaep'' None)
   \<and> export_private_key demo_env \<lparr>private_key = None, public_key = Some (DemoPub RsaLarge)\<rparr>
        ''PEM'' ''PKCS8'' (Some ''secret'') = Inl (none_has_no_attribute ''private_bytes'')"
proof -
  let ?self = "\<lparr>private_key = None, public_key = Some (DemoPub RsaLarge)\<rparr>"
  have i: "RSAUtil_init demo_env 0 None (Some (DemoPub RsaLarge)) 2048 65537 = Inr ?self"
    by (simp add: RSAUtil_init_def)
  have h: "hashes_getattr demo_env (upper ''sha512'') = Inr DemoSHA512" by code_simp
  moreover have "upper ''pkcs1v15'' = ''PKCS1V15''" by code_simp
  ultimately have s: "supported_scheme demo_env ''pkcs1v15'' ''sha512''"
    unfolding supported_scheme_def by blast
  have d: "hashes_getattr demo_env (upper ''md4'')
             = Inl (Exn AttributeError ''module has no attribute MD4'' None)"
    by code_simp
  have e: "upper ''oaep'' \<noteq> ''PSS'' \<and> upper ''oaep'' \<noteq> ''PKCS1V15''" by code_simp
  from public_only_engine_has_no_private_key
         [OF i, of "''PEM''" "''PKCS8''" "Some ''secret''" "''sha512''" 3 "''hello''" "''pkcs1v15''"] s
  have "sign demo_env 3 ?self ''hello'' ''pkcs1v15'' ''sha512'' = Inl (none_has_no_attribute ''sign'')
        \<and> export_private_key demo_env ?self ''PEM'' ''PKCS8'' (Some ''secret'')
            = Inl (none_has_no_attribute ''private_bytes'')"
    by blast
  moreover
  from public_only_engine_has_no_private_key
         [OF i, of "''PEM''" "''PKCS8''" "Some ''secret''" "''md4''" 3 "''hello''" "''pkcs1v15''"] d
  have "sign demo_env 3 ?self ''hello'' ''pkcs1v15'' ''md4''
          = Inl (Exn AttributeError ''module has no attribute MD4'' None)"
    by blast
  moreover
  from public_only_engine_has_no_private_key
         [OF i, of "''PEM''" "''PKCS8''" "Some ''secret''" "''sha512''" 3 "''hello''" "''oaep''"] h e
  have "sign demo_env 3 ?self ''hello'' ''oaep'' ''sha512''
          = Inl (Exn ValueError (''Unsupported padding_mode: '' @ ''oaep'') None)"
    by blast
  ultimately show ?thesis using s by simp
qed


section \<open>Auto-detecting conversion of private keys\<close>





section \<open>SPKI to PKCS#1\<close>

text \<open>
  C7. When the key decoded from an SPKI input is not an RSA key (an elliptic-curve key,
  say), the SPKI to PKCS#1 conversion raises the \<open>TypeError\<close> of its type check, the
  error the specification calls UnsupportedKeyType, and produces no buffer; so does the
  auto-detecting conversion on a buffer that carries the SPKI marker only. Whenever the
  conversion returns a buffer, the decoded key is an RSA key and the buffer is its
  PKCS#1 serialisation.
\<close>

theorem spki_conversion_rejects_non_rsa:
  "(\<forall>k. load_pem_public_key E spki_pem = Inr k \<and> \<not> isinstance_RSAPublicKey E k \<longrightarrow>
        spki_to_pkcs1_pub E spki_pem = Inl not_rsa_public_key
      \<and> (bytes_in ''BEGIN PUBLIC KEY'' spki_pem \<and> \<not> bytes_in ''BEGIN RSA PUBLIC KEY'' spki_pem \<longrightarrow>
           snd (convert_public_key_auto E spki_pem) = Inl not_rsa_public_key))
   \<and> (\<forall>out. spki_to_pkcs1_pub E spki_pem = Inr out \<longrightarrow>
        (\<exists>k. load_pem_public_key E spki_pem = Inr k \<and> isinstance_RSAPublicKey E k
            \<and> public_bytes E k PEM PKCS1 = Inr out))"
proof (intro conjI allI impI)
  fix k
  assume a: "load_pem_public_key E spki_pem = Inr k \<and> \<not> isinstance_RSAPublicKey E k"
  then show r: "spki_to_pkcs1_pub E spki_pem = Inl not_rsa_public_key"
    by (simp add: spki_to_pkcs1_pub_non_rsa)
  assume "bytes_in ''BEGIN PUBLIC KEY'' spki_pem \<and> \<not> bytes_in ''BEGIN RSA PUBLIC KEY'' spki_pem"
  then show "snd (convert_public_key_auto E spki_pem) = Inl not_rsa_public_key"
    using r by (simp add: convert_public_key_auto_spki as_bytes_def)
next
  fix out
  assume "spki_to_pkcs1_pub E spki_pem = Inr out"
  then show "\<exists>k. load_pem_public_key E spki_pem = Inr k \<and> isinstance_RSAPublicKey E k
                \<and> public_bytes E k PEM PKCS1 = Inr out"
    by (rule spki_to_pkcs1_pub_returns)
qed

theorem spki_conversion_rejects_non_rsa_witness:
  "load_pem_public_key demo_env (pem_block ''PUBLIC KEY'' ''ec'') = Inr (DemoPub Ec)
   \<and> \<not> isinstance_RSAPublicKey demo_env (DemoPub Ec)
   \<and> spki_to_pkcs1_pub demo_env (pem_block ''PUBLIC KEY'' ''ec'') = Inl not_rsa_public_key
   \<and> snd (convert_public_key_auto demo_env (pem_block ''PUBLIC KEY'' ''ec'')) = Inl not_rsa_public_key
   \<and> spki_to_pkcs1_pub demo_env (pem_block ''PUBLIC KEY'' ''rsa-small'')
       = Inr (pem_block ''RSA PUBLIC KEY'' ''rsa-small'')
   \<and> (\<exists>k. load_pem_public_key demo_env (pem_block ''PUBLIC KEY'' ''rsa-small'') = Inr k
          \<and> isinstance_RSAPublicKey demo_env k
          \<and> public_bytes demo_env k PEM PKCS1 = Inr (pem_block ''RSA PUBLIC KEY'' ''rsa-small''))"
proof -
  let ?ec = "pem_block ''PUBLIC KEY'' ''ec''"
  let ?rsa = "pem_block ''PUBLIC KEY'' ''rsa-small''"
  have l: "load_pem_public_key demo_env ?ec = Inr (DemoPub Ec)" by code_simp
  have n: "\<not> isinstance_RSAPublicKey demo_env (DemoPub Ec)" by (simp add: demo_env_def)
  have m: "bytes_in ''BEGIN PUBLIC KEY'' ?ec \<and> \<not> bytes_in ''BEGIN RSA PUBLIC KEY'' ?ec"
    by code_simp
  have s: "spki_to_pkcs1_pub demo_env ?rsa = Inr (pem_block ''RSA PUBLIC KEY'' ''rsa-small'')"
    by code_simp
  note t = spki_conversion_rejects_non_rsa [of demo_env ?ec]
  note u = spki_conversion_rejects_non_rsa [of demo_env ?rsa]
  from t l n m have "spki_to_pkcs1_pub demo_env ?ec = Inl not_rsa_public_key
      \<and> snd (convert_public_key_auto demo_env ?ec) = Inl not_rsa_public_key"
    by blast
  moreover from u s have "\<exists>k. load_pem_public_key demo_env ?rsa = Inr k
          \<and> isinstance_RSAPublicKey demo_env k
          \<and> public_bytes demo_env k PEM PKCS1 = Inr (pem_block ''RSA PUBLIC KEY'' ''rsa-small'')"
    by blast
  ultimately show ?thesis using l n s by blast
qed


section \<open>Round trips between the formats\<close>

text \<open>
  C8. For every RSA key pair (the generated ones among them), the private key's PKCS#1
  PEM converts to PKCS#8 and back to PKCS#1, and the public key's PKCS#1 PEM converts to
  SPKI and back to PKCS#1; each result parses to a key with the modulus and public
  exponent of the original. The package enters through the two codec contracts; the
  module's part is that each conversion parses without a password and serialises
  unencrypted in PEM, in the format the next conversion reads.
\<close>

theorem pkcs_round_trip:
  assumes "private_codec_contract E" and "public_codec_contract E"
    and "isinstance_RSAPrivateKey E k" and "isinstance_RSAPublicKey E (public_key_of E k)"
  shows "(\<exists>p1 p8 p1' k'.
            private_bytes E k PEM TraditionalOpenSSL NoEncryption = Inr p1
          \<and> pkcs1_to_pkcs8 E p1 = Inr p8
          \<and> pkcs8_to_pkcs1 E p8 = Inr p1'
          \<and> load_pem_private_key E p1' None = Inr k'
          \<and> public_numbers E (public_key_of E k') = public_numbers E (public_key_of E k))
       \<and> (\<exists>q1 spki q1' p'.
            public_bytes E (public_key_of E k) PEM PKCS1 = Inr q1
          \<and> pkcs1_pub_to_spki E q1 = Inr spki
          \<and> spki_to_pkcs1_pub E spki = Inr q1'
          \<and> load_pem_public_key E q1' = Inr p'
          \<and> public_numbers E p' = public_numbers E (public_key_of E k))"
  using private_round_trip [OF assms(1) assms(3)] public_round_trip [OF assms(2) assms(4)]
  by blast

theorem pkcs_round_trip_witness:
  "generate_private_key demo_env 0 65537 2048 = Inr (DemoPriv RsaLarge)
   \<and> (\<exists>p1 p8 p1' k'.
            private_bytes demo_env (DemoPriv RsaLarge) PEM TraditionalOpenSSL NoEncryption = Inr p1
          \<and> pkcs1_to_pkcs8 demo_env p1 = Inr p8
          \<and> pkcs8_to_pkcs1 demo_env p8 = Inr p1'
          \<and> load_pem_private_key demo_env p1' None = Inr k'
          \<and> public_numbers demo_env (public_key_of demo_env k') = (3233, 65537))
   \<and> (\<exists>q1 spki q1' p'.
            public_bytes demo_env (DemoPub RsaLarge) PEM PKCS1 = Inr q1
          \<and> pkcs1_pub_to_spki demo_env q1 = Inr spki
          \<and> spki_to_pkcs1_pub demo_env spki = Inr q1'
          \<and> load_pem_public_key demo_env q1' = Inr p'
          \<and> public_numbers demo_env p' = (3233, 65537))"
proof -
  have g: "generate_private_key demo_env 0 65537 2048 = Inr (DemoPriv RsaLarge)"
    by (simp add: demo_env_def demo_generate_def)
  have r1: "isinstance_RSAPrivateKey demo_env (DemoPriv RsaLarge)"
    by (simp add: demo_env_def)
  have pk: "public_key_of demo_env (DemoPriv RsaLarge) = DemoPub RsaLarge"
    by (simp add: demo_env_def)
  have r2: "isinstance_RSAPublicKey demo_env (public_key_of demo_env (DemoPriv RsaLarge))"
    by (simp add: demo_env_def)
  have n: "public_numbers demo_env (DemoPub RsaLarge) = (3233, 65537)"
    by (simp add: demo_env_def)
  from pkcs_round_trip [OF demo_private_codec_contract demo_public_codec_contract r1 r2] g
  show ?thesis unfolding pk n by blast
qed


section \<open>The constructor's invariant\<close>

text \<open>
  C9. After every construction that returns (from a private key, from a public key, or by
  generating a key), the engine holds a public key; and when it holds a private key, its
  public key is the one derived from that private key, whatever was passed as
  \<open>public_key\<close>.
\<close>

theorem init_holds_derived_public_key:
  assumes "RSAUtil_init E sd priv pub key_size public_exponent = Inr self"
  shows "public_key self \<noteq> None
         \<and> (\<forall>k. private_key self = Some k \<longrightarrow> public_key self = Some (public_key_of E k))"
  using RSAUtil_init_cases [OF assms] by auto

theorem init_holds_derived_public_key_witness:
  "RSAUtil_init demo_env 0 None (Some (DemoPub Ec)) 2048 65537
     = Inr \<lparr>private_key = None, public_key = Some (DemoPub Ec)\<rparr>
   \<and> RSAUtil_init demo_env 0 (Some (DemoPriv RsaSmall)) (Some (DemoPub Ec)) 2048 65537
     = Inr \<lparr>private_key = Some (DemoPriv RsaSmall), public_key = Some (DemoPub RsaSmall)\<rparr>
   \<and> RSAUtil_init demo_env 0 None None 2048 65537
     = Inr \<lparr>private_key = Some (DemoPriv RsaLarge), public_key = Some (DemoPub RsaLarge)\<rparr>
   \<and> public_key \<lparr>private_key = Some (DemoPriv RsaLarge), public_key = Some (DemoPub RsaLarge)\<rparr>
     = Some (public_key_of demo_env (DemoPriv RsaLarge))"
proof -
  let ?self = "\<lparr>private_key = Some (DemoPriv RsaLarge), public_key = Some (DemoPub RsaLarge)\<rparr>"
  have g: "RSAUtil_init demo_env 0 None None 2048 65537 = Inr ?self"
    by (simp add: RSAUtil_init_def demo_env_def demo_generate_def)
  have "private_key ?self = Some (DemoPriv RsaLarge)" by simp
  with init_holds_derived_public_key [OF g]
  have "public_key ?self = Some (public_key_of demo_env (DemoPriv RsaLarge))" by blast
  moreover have "RSAUtil_init demo_env 0 None (Some (DemoPub Ec)) 2048 65537
     = Inr \<lparr>private_key = None, public_key = Some (DemoPub Ec)\<rparr>"
    by (simp add: RSAUtil_init_def)
  moreover have "RSAUtil_init demo_env 0 (Some (DemoPriv RsaSmall)) (Some (DemoPub Ec)) 2048 65537
     = Inr \<lparr>private_key = Some (DemoPriv RsaSmall), public_key = Some (DemoPub RsaSmall)\<rparr>"
    by (simp add: RSAUtil_init_def demo_env_def)
  ultimately show ?thesis using g by blast
qed


section \<open>The result types of the auto-detecting conversions\<close>

text \<open>
  C10. The auto-detecting private-key conversion returns exactly when the conversion its
  marker selects returns bytes that decode as UTF-8, and it returns the decoded \<open>str\<close>;
  the auto-detecting public-key conversion returns exactly when the conversion its
  marker selects returns, and it returns those \<open>bytes\<close>. Both are annotated
  \<open>-> bytes\<close> in the source; on every input they accept, the two differ in the type of
  the result.
\<close>

theorem auto_conversions_differ_in_result_type:
  "(convert_private_key_auto E pem_data = Inr v \<longleftrightarrow>
      (\<exists>b s. (if bytes_in ''BEGIN RSA PRIVATE KEY'' pem_data then pkcs1_to_pkcs8 E pem_data = Inr b
              else bytes_in ''BEGIN PRIVATE KEY'' pem_data \<and> pkcs8_to_pkcs1 E pem_data = Inr b)
            \<and> bytes_decode E b = Inr s \<and> v = PyStr s))
   \<and> (snd (convert_public_key_auto E pem_data) = Inr w \<longleftrightarrow>
      (\<exists>b. (if bytes_in ''BEGIN RSA PUBLIC KEY'' pem_data then pkcs1_pub_to_spki E pem_data = Inr b
            else bytes_in ''BEGIN PUBLIC KEY'' pem_data \<and> spki_to_pkcs1_pub E pem_data = Inr b)
          \<and> w = PyBytes b))"
  by (auto simp: convert_private_key_auto_def convert_public_key_auto_def
        decode_utf8_returns as_bytes_returns)

theorem auto_conversions_differ_in_result_type_witness:
  "convert_private_key_auto demo_env (pem_block ''RSA PRIVATE KEY'' ''rsa-large'')
     = Inr (PyStr (map of_char (pem_block ''PRIVATE KEY'' ''rsa-large'')))
   \<and> snd (convert_public_key_auto demo_env (pem_block ''RSA PUBLIC KEY'' ''rsa-large''))
     = Inr (PyBytes (pem_block ''PUBLIC KEY'' ''rsa-large''))"
proof -
  let ?d = "pem_block ''RSA PRIVATE KEY'' ''rsa-large''"
  let ?q = "pem_block ''RSA PUBLIC KEY'' ''rsa-large''"
  have a: "bytes_in ''BEGIN RSA PRIVATE KEY'' ?d" by code_simp
  have b: "pkcs1_to_pkcs8 demo_env ?d = Inr (pem_block ''PRIVATE KEY'' ''rsa-large'')" by code_simp
  have c: "bytes_decode demo_env (pem_block ''PRIVATE KEY'' ''rsa-large'')
             = Inr (map of_char (pem_block ''PRIVATE KEY'' ''rsa-large''))"
    by code_simp
  have a': "bytes_in ''BEGIN RSA PUBLIC KEY'' ?q" by code_simp
  have b': "pkcs1_pub_to_spki demo_env ?q = Inr (pem_block ''PUBLIC KEY'' ''rsa-large'')" by code_simp
  from a b c a' b'
  show ?thesis
    using auto_conversions_differ_in_result_type
      [of demo_env ?d "PyStr (map of_char (pem_block ''PRIVATE KEY'' ''rsa-large''))"
          "PyBytes (pem_block ''PUBLIC KEY'' ''rsa-large'')"]
      auto_conversions_differ_in_result_type
      [of demo_env ?q "PyStr []" "PyBytes (pem_block ''PUBLIC KEY'' ''rsa-large'')"]
    by simp
qed

end
